theory Spec2Isabelle
  imports Main
begin

section \<open>JavaScript values\<close>

text \<open>
  A number is \<^verbatim>\<open>NaN\<close> or an integer. Every id and every timestamp the program
  makes is \<^verbatim>\<open>Date.now()\<close>, an integer far below \<open>2^53\<close>, where doubles are exact;
  fractions and the rounding of larger values are not represented.
\<close>

datatype jsnum = NaN | Finite int

text \<open>
  The values the board handles are the ones \<^verbatim>\<open>JSON.parse\<close> produces, plus
  \<^verbatim>\<open>undefined\<close> (a property that \<^verbatim>\<open>createTask\<close> copies from an object that
  lacks it). An object is the list of its own properties in insertion order.
\<close>

datatype jsval =
    JUndefined
  | JNull
  | JBool bool
  | JNum jsnum
  | JStr string
  | JArr "jsval list"
  | JObj "(string \<times> jsval) list"

type_synonym props = "(string \<times> jsval) list"

subsection \<open>Decimal strings\<close>

text \<open>\<^verbatim>\<open>Number.prototype.toString\<close> on an integer: a minus sign and the decimal digits.\<close>

definition digit_char :: "nat \<Rightarrow> char" where
  "digit_char d = ''0123456789'' ! d"

fun digits_of :: "nat \<Rightarrow> string" where
  "digits_of n = (if n < 10 then [digit_char n] else digits_of (n div 10) @ [digit_char (n mod 10)])"

declare digits_of.simps [simp del]

definition toString :: "int \<Rightarrow> string" where
  "toString n = (if n < 0 then CHR ''-'' # digits_of (nat (- n)) else digits_of (nat n))"

text \<open>
  \<^verbatim>\<open>parseInt(s)\<close> with no radix: skip leading white space, read a sign, switch to
  radix 16 after \<^verbatim>\<open>0x\<close> or \<^verbatim>\<open>0X\<close>, read the longest run of digits; no digit gives
  \<^verbatim>\<open>NaN\<close>. White space is the set \<^verbatim>\<open>trim\<close> removes as well; of it, the code
  units up to U+00FF are representable in \<^typ>\<open>char\<close>.
\<close>

definition is_ws :: "char \<Rightarrow> bool" where
  "is_ws c = (of_char c \<in> {9, 10, 11, 12, 13, 32, 160 :: nat})"

definition dec_digit :: "char \<Rightarrow> nat option" where
  "dec_digit c = (let n = of_char c :: nat in if 48 \<le> n \<and> n \<le> 57 then Some (n - 48) else None)"

definition hex_digit :: "char \<Rightarrow> nat option" where
  "hex_digit c = (let n = of_char c :: nat in
     if 48 \<le> n \<and> n \<le> 57 then Some (n - 48)
     else if 97 \<le> n \<and> n \<le> 102 then Some (n - 87)
     else if 65 \<le> n \<and> n \<le> 70 then Some (n - 55)
     else None)"

definition radix_digit :: "nat \<Rightarrow> char \<Rightarrow> nat option" where
  "radix_digit r c = (if r = 16 then hex_digit c else dec_digit c)"

definition is_digit :: "nat \<Rightarrow> char \<Rightarrow> bool" where
  "is_digit r c = (radix_digit r c \<noteq> None)"

definition digits_value :: "nat \<Rightarrow> string \<Rightarrow> nat" where
  "digits_value r z = foldl (\<lambda>acc c. acc * r + the (radix_digit r c)) 0 z"

definition strip_sign :: "string \<Rightarrow> bool \<times> string" where
  "strip_sign s = (case s of
       c # rest \<Rightarrow> if c = CHR ''-'' then (True, rest) else if c = CHR ''+'' then (False, rest) else (False, s)
     | [] \<Rightarrow> (False, s))"

definition strip_prefix :: "string \<Rightarrow> nat \<times> string" where
  "strip_prefix s = (case s of
       c # d # rest \<Rightarrow> if c = CHR ''0'' \<and> (d = CHR ''x'' \<or> d = CHR ''X'') then (16, rest) else (10, s)
     | _ \<Rightarrow> (10, s))"

definition parseInt :: "string \<Rightarrow> jsnum" where
  "parseInt s =
     (let (neg, s1) = strip_sign (dropWhile is_ws s);
          (r, s2) = strip_prefix s1;
          z = takeWhile (is_digit r) s2
      in if z = [] then NaN
         else Finite ((if neg then - 1 else 1) * int (digits_value r z)))"

text \<open>\<^verbatim>\<open>String.prototype.trim\<close>.\<close>

definition trim :: "string \<Rightarrow> string" where
  "trim s = rev (dropWhile is_ws (rev (dropWhile is_ws s)))"

subsection \<open>Property access and property keys\<close>

text \<open>
  \<^verbatim>\<open>v.k\<close> for the property names the program reads (\<^verbatim>\<open>id\<close>, \<^verbatim>\<open>title\<close>,
  \<^verbatim>\<open>description\<close>, \<^verbatim>\<open>status\<close>, \<^verbatim>\<open>priority\<close>): an object answers with its own
  property, and neither \<^verbatim>\<open>Object.prototype\<close> nor an array, string, number or boolean
  has one of these names. Reading a property of \<^verbatim>\<open>null\<close> or \<^verbatim>\<open>undefined\<close> throws;
  the callers test for that before they use \<open>get_prop\<close>.
\<close>

definition lookup :: "props \<Rightarrow> string \<Rightarrow> jsval" where
  "lookup fs k = (case map_of fs k of Some v \<Rightarrow> v | None \<Rightarrow> JUndefined)"

definition get_prop :: "jsval \<Rightarrow> string \<Rightarrow> jsval" where
  "get_prop v k = (case v of JObj fs \<Rightarrow> lookup fs k | _ \<Rightarrow> JUndefined)"

definition nullish :: "jsval \<Rightarrow> bool" where
  "nullish v = (v = JNull \<or> v = JUndefined)"

text \<open>\<^verbatim>\<open>o.k = v\<close> on an object: an existing property keeps its place, a new one goes last.\<close>

fun put :: "string \<Rightarrow> jsval \<Rightarrow> props \<Rightarrow> props" where
  "put k v [] = [(k, v)]"
| "put k v (p # ps) = (if fst p = k then (k, v) # ps else p # put k v ps)"

definition key_of_num :: "jsnum \<Rightarrow> string" where
  "key_of_num n = (case n of NaN \<Rightarrow> ''NaN'' | Finite i \<Rightarrow> toString i)"

fun join_comma :: "string list \<Rightarrow> string" where
  "join_comma [] = []"
| "join_comma [s] = s"
| "join_comma (s # t # ss) = s @ CHR '','' # join_comma (t # ss)"

text \<open>
  \<^verbatim>\<open>ToString(x)\<close>: the key under which \<^verbatim>\<open>taskMap[x]\<close> files a value, and the text
  a template literal inserts. An array joins its elements with commas. An object answers
  \<^verbatim>\<open>[object Object]\<close> through the inherited \<^verbatim>\<open>toString\<close>; when it has a property
  \<^verbatim>\<open>toString\<close> of its own (which in JSON data is never a function) the conversion
  throws a \<^verbatim>\<open>TypeError\<close>, here \<open>None\<close>. One key is outside the model:
  \<^verbatim>\<open>taskMap['__proto__'] = task\<close> would replace the prototype of \<^verbatim>\<open>taskMap\<close>
  instead of adding a property.
\<close>

fun key_of :: "jsval \<Rightarrow> string option" where
  "key_of JUndefined = Some ''undefined''"
| "key_of JNull = Some ''null''"
| "key_of (JBool b) = Some (if b then ''true'' else ''false'')"
| "key_of (JNum n) = Some (key_of_num n)"
| "key_of (JStr s) = Some s"
| "key_of (JArr vs) =
     map_option join_comma (those (map (\<lambda>v. if nullish v then Some [] else key_of v) vs))"
| "key_of (JObj fs) = (if map_of fs ''toString'' = None then Some ''[object Object]'' else None)"

text \<open>\<^verbatim>\<open>x === n\<close> for a number \<open>n\<close>: \<^verbatim>\<open>NaN\<close> equals nothing.\<close>

definition strict_eq_num :: "jsval \<Rightarrow> jsnum \<Rightarrow> bool" where
  "strict_eq_num v n = (case n of NaN \<Rightarrow> False | Finite i \<Rightarrow> v = JNum (Finite i))"

section \<open>The program state\<close>

subsection \<open>The local store\<close>

text \<open>
  The text under the key \<^verbatim>\<open>tasks\<close> is only ever tested for truthiness and handed to
  \<^verbatim>\<open>JSON.parse\<close>; it is represented by what these two observe: the empty string, a
  text that \<^verbatim>\<open>JSON.parse\<close> rejects with a \<^verbatim>\<open>SyntaxError\<close>, or a text that it reads
  as a value. \<^verbatim>\<open>JSON.stringify\<close> of an array writes \<^verbatim>\<open>null\<close> for an
  \<^verbatim>\<open>undefined\<close> or \<^verbatim>\<open>NaN\<close> element and leaves out a property whose value is
  \<^verbatim>\<open>undefined\<close>; \<open>jsonify\<close> is the value its output reads back as.
\<close>

datatype json_text = Empty_text | Malformed | Json jsval

fun jsonify :: "jsval \<Rightarrow> jsval" where
  "jsonify (JArr vs) = JArr (map (\<lambda>v. if v = JUndefined then JNull else jsonify v) vs)"
| "jsonify (JObj fs) =
     JObj (map (\<lambda>p. (fst p, jsonify (snd p))) (filter (\<lambda>p. snd p \<noteq> JUndefined) fs))"
| "jsonify (JNum n) = (if n = NaN then JNull else JNum n)"
| "jsonify v = v"

definition JSON_stringify :: "jsval list \<Rightarrow> json_text" where
  "JSON_stringify vs = Json (jsonify (JArr vs))"

definition JSON_parse :: "json_text \<Rightarrow> jsval option" where
  "JSON_parse t = (case t of Json v \<Rightarrow> Some v | _ \<Rightarrow> None)"

text \<open>
  The three keys of \<^verbatim>\<open>localStorage\<close> the program reads and writes; \<open>None\<close> is a key
  that is not set (\<^verbatim>\<open>getItem\<close> returns \<^verbatim>\<open>null\<close>). \<^verbatim>\<open>setItem\<close> is taken to
  succeed: a store that is full or disabled is not represented.
\<close>

record storage =
  item_tasks :: "json_text option"
  item_lastSaved :: "string option"
  item_lastModified :: "string option"

subsection \<open>Errors, the remote source, the page\<close>

datatype error = TypeError | Error string

text \<open>
  What the page shows: a string, or a string followed by the wording the engine gives a
  \<^verbatim>\<open>TypeError\<close> (which differs between engines and is never empty).
\<close>

datatype shown = Shown string | Shown_TypeError string

fun interpolate :: "string \<Rightarrow> error \<Rightarrow> shown" where
  "interpolate pre (Error m) = Shown (pre @ m)"
| "interpolate pre TypeError = Shown_TypeError pre"

text \<open>\<^verbatim>\<open>error.message || fallback\<close>.\<close>

fun message_or :: "error \<Rightarrow> string \<Rightarrow> shown" where
  "message_or (Error m) fallback = Shown (if m = [] then fallback else m)"
| "message_or TypeError fallback = Shown_TypeError []"

text \<open>
  What the network does with \<^verbatim>\<open>fetch\<close>: the promise is rejected with a message, the
  response has a status that is not ok, its body cannot be read as JSON, or it carries
  JSON data.
\<close>

datatype fetch_reply =
    Rejected string
  | Status_not_ok nat
  | Body_unreadable string
  | Body jsval

datatype api_call =
    FetchTasks
  | CreateTask props
  | UpdateTask jsnum props
  | DeleteTaskAPI jsnum

text \<open>
  The elements of the page that the loading strategy and the modal handlers write, all
  taken to be on the page. The columns that \<^verbatim>\<open>renderTasks\<close> fills are not
  represented.
\<close>

record page =
  status_class :: string
  status_text :: string
  loading_display :: string
  error_text :: shown
  error_hidden :: bool
  modal_hidden :: bool
  alerts :: "shown list"

subsection \<open>The state\<close>

text \<open>
  \<^verbatim>\<open>tasks\<close> and \<^verbatim>\<open>taskMap\<close> hold references to the same objects, and
  \<^verbatim>\<open>editTask\<close> writes to an object through \<^verbatim>\<open>taskMap\<close>. So every element of
  \<^verbatim>\<open>tasks\<close> lives in a cell of a heap, \<^verbatim>\<open>tasks\<close> is the list of the cells'
  addresses and \<^verbatim>\<open>taskMap\<close> maps a property key to an address. \<open>api_calls\<close>
  records the calls made to \<^verbatim>\<open>api.js\<close>, in order.
\<close>

type_synonym addr = nat

record state =
  heap :: "addr \<Rightarrow> jsval"
  next_addr :: addr
  tasks :: "addr list"
  taskMap :: "string \<Rightarrow> addr option"
  localStorage :: storage
  api_calls :: "api_call list"
  screen :: page

definition contents :: "state \<Rightarrow> jsval list" where
  "contents s = map (heap s) (tasks s)"

section \<open>storage.js\<close>

text \<open>Every reading of \<^verbatim>\<open>Date.now()\<close> is a parameter of the function that takes it.\<close>

definition saveToLocalStorage :: "int \<Rightarrow> state \<Rightarrow> state" where
  "saveToLocalStorage now s =
     s\<lparr>localStorage := (localStorage s)
          \<lparr>item_tasks := Some (JSON_stringify (contents s)),
           item_lastSaved := Some (toString now)\<rparr>\<rparr>"

definition getLastSavedTime :: "state \<Rightarrow> jsnum option" where
  "getLastSavedTime s =
     (case item_lastSaved (localStorage s) of
        None \<Rightarrow> None
      | Some lastSaved \<Rightarrow> if lastSaved = [] then None else Some (parseInt lastSaved))"

text \<open>\<^verbatim>\<open>!x\<close> for a number or \<^verbatim>\<open>null\<close>, and for a string or \<^verbatim>\<open>null\<close>.\<close>

definition not_num :: "jsnum option \<Rightarrow> bool" where
  "not_num x = (x = None \<or> x = Some NaN \<or> x = Some (Finite 0))"

definition not_str :: "string option \<Rightarrow> bool" where
  "not_str x = (x = None \<or> x = Some [])"

fun gt_num :: "jsnum \<Rightarrow> jsnum \<Rightarrow> bool" where
  "gt_num (Finite a) (Finite b) = (a > b)"
| "gt_num _ _ = False"

definition hasUnsavedChanges :: "state \<Rightarrow> bool" where
  "hasUnsavedChanges s =
     (let lastSaved = getLastSavedTime s;
          lastModified = item_lastModified (localStorage s)
      in if not_num lastSaved \<or> not_str lastModified then False
         else case (lastModified, lastSaved) of
                (Some m, Some t) \<Rightarrow> gt_num (parseInt m) t
              | _ \<Rightarrow> False)"

definition markAsModified :: "int \<Rightarrow> state \<Rightarrow> state" where
  "markAsModified now s =
     s\<lparr>localStorage := (localStorage s)\<lparr>item_lastModified := Some (toString now)\<rparr>\<rparr>"

section \<open>tasks.js and api.js\<close>

text \<open>\<^verbatim>\<open>tasks.push(v)\<close>: the element gets a fresh cell.\<close>

definition push :: "jsval \<Rightarrow> state \<Rightarrow> state" where
  "push v s =
     s\<lparr>heap := (heap s)(next_addr s := v),
       next_addr := Suc (next_addr s),
       tasks := tasks s @ [next_addr s]\<rparr>"

fun push_all :: "jsval list \<Rightarrow> state \<Rightarrow> state" where
  "push_all [] s = s"
| "push_all (v # vs) s = push_all vs (push v s)"

text \<open>
  The loop of \<^verbatim>\<open>refreshTaskMap\<close>: \<^verbatim>\<open>taskMap[task.id] = task\<close> for each task in
  order. On a \<^verbatim>\<open>null\<close> element \<^verbatim>\<open>task.id\<close> throws a \<^verbatim>\<open>TypeError\<close>, as
  does an id that has no string conversion, and the entries made so far stay.
\<close>

definition task_key :: "jsval \<Rightarrow> string option" where
  "task_key v = (if nullish v then None else key_of (get_prop v ''id''))"

fun index_tasks ::
  "(addr \<Rightarrow> jsval) \<Rightarrow> addr list \<Rightarrow> (string \<Rightarrow> addr option) \<Rightarrow> error option \<times> (string \<Rightarrow> addr option)"
where
  "index_tasks h [] m = (None, m)"
| "index_tasks h (a # as) m =
     (case task_key (h a) of
        None \<Rightarrow> (Some TypeError, m)
      | Some k \<Rightarrow> index_tasks h as (m(k \<mapsto> a)))"

definition refreshTaskMap :: "state \<Rightarrow> error option \<times> state" where
  "refreshTaskMap s =
     (case index_tasks (heap s) (tasks s) Map.empty of (e, m) \<Rightarrow> (e, s\<lparr>taskMap := m\<rparr>))"

definition fetchTasks :: "fetch_reply \<Rightarrow> error + jsval list" where
  "fetchTasks reply =
     (case reply of
        Rejected m \<Rightarrow> Inl (Error (''Failed to fetch tasks: '' @ m))
      | Status_not_ok n \<Rightarrow>
          Inl (Error (''Failed to fetch tasks: '' @ ''HTTP error! status: '' @ digits_of n))
      | Body_unreadable m \<Rightarrow> Inl (Error (''Failed to fetch tasks: '' @ m))
      | Body d \<Rightarrow> Inr (case d of JArr vs \<Rightarrow> vs | _ \<Rightarrow> []))"

definition createTask :: "int \<Rightarrow> props \<Rightarrow> jsval" where
  "createTask now taskData =
     JObj [(''id'', JNum (Finite now)),
           (''title'', lookup taskData ''title''),
           (''description'', lookup taskData ''description''),
           (''status'', lookup taskData ''status'')]"

definition updateTask :: "jsnum \<Rightarrow> props \<Rightarrow> jsval" where
  "updateTask taskId taskData =
     JObj [(''id'', JNum taskId),
           (''title'', lookup taskData ''title''),
           (''description'', lookup taskData ''description''),
           (''status'', lookup taskData ''status'')]"

definition called :: "api_call \<Rightarrow> state \<Rightarrow> state" where
  "called c s = s\<lparr>api_calls := api_calls s @ [c]\<rparr>"

definition loadTasksFromAPI :: "fetch_reply \<Rightarrow> state \<Rightarrow> error option \<times> state" where
  "loadTasksFromAPI reply s =
     (let s1 = called FetchTasks s in
      case fetchTasks reply of
        Inl e \<Rightarrow> (Some e, s1)
      | Inr vs \<Rightarrow> refreshTaskMap (push_all vs (s1\<lparr>tasks := []\<rparr>)))"

text \<open>
  \<^verbatim>\<open>addTask\<close> reads the clock twice: for the id in \<^verbatim>\<open>createTask\<close> and in
  \<^verbatim>\<open>markAsModified\<close>. It returns the new object, here its address. The id of the new
  object is the number \<open>now_id\<close>, so \<^verbatim>\<open>taskMap[newTask.id]\<close> is the property
  \<open>key_of_num (Finite now_id)\<close> (\<open>createTask_key\<close> below).
\<close>

definition addTask :: "int \<Rightarrow> int \<Rightarrow> props \<Rightarrow> state \<Rightarrow> addr \<times> state" where
  "addTask now_id now_mod taskData s =
     (let s1 = called (CreateTask taskData) s;
          newTask = createTask now_id taskData;
          a = next_addr s1;
          s2 = push newTask s1;
          s3 = s2\<lparr>taskMap := (taskMap s2)(key_of_num (Finite now_id) \<mapsto> a)\<rparr>
      in (a, markAsModified now_mod s3))"

text \<open>\<^verbatim>\<open>!v\<close> for a value.\<close>

definition falsy :: "jsval \<Rightarrow> bool" where
  "falsy v = (v = JUndefined \<or> v = JNull \<or> v = JBool False \<or> v = JNum NaN
              \<or> v = JNum (Finite 0) \<or> v = JStr [])"

text \<open>
  \<^verbatim>\<open>editTask\<close>. A module is strict code, so writing a property of a number, a string
  or \<^verbatim>\<open>true\<close> throws a \<^verbatim>\<open>TypeError\<close>. An array takes the three properties, which
  \<^typ>\<open>jsval\<close> does not represent; an array has no \<^verbatim>\<open>id\<close> and is filed under the
  key \<^verbatim>\<open>undefined\<close>, which no number reaches (\<open>numeric_key_finds_object\<close> below).
\<close>

definition editTask :: "int \<Rightarrow> jsnum \<Rightarrow> props \<Rightarrow> state \<Rightarrow> (error + bool) \<times> state" where
  "editTask now taskId updates s =
     (let s1 = called (UpdateTask taskId updates) s;
          updatedTask = updateTask taskId updates
      in case taskMap s1 (key_of_num taskId) of
           None \<Rightarrow> (Inr False, s1)
         | Some a \<Rightarrow>
             (case heap s1 a of
                JObj fs \<Rightarrow>
                  (Inr True,
                   markAsModified now
                     (s1\<lparr>heap := (heap s1)(a :=
                        JObj (put ''status'' (get_prop updatedTask ''status'')
                             (put ''description'' (get_prop updatedTask ''description'')
                             (put ''title'' (get_prop updatedTask ''title'') fs))))\<rparr>))
              | JArr vs \<Rightarrow> (Inr True, markAsModified now s1)
              | v \<Rightarrow> if falsy v then (Inr False, s1) else (Inl TypeError, s1)))"

text \<open>
  \<^verbatim>\<open>tasks.findIndex(task => task.id === taskId)\<close>: the position of the first match;
  a \<^verbatim>\<open>null\<close> element before it throws.
\<close>

fun findIndex :: "(addr \<Rightarrow> jsval) \<Rightarrow> jsnum \<Rightarrow> addr list \<Rightarrow> error + nat option" where
  "findIndex h n [] = Inr None"
| "findIndex h n (a # as) =
     (if nullish (h a) then Inl TypeError
      else if strict_eq_num (get_prop (h a) ''id'') n then Inr (Some 0)
      else case findIndex h n as of
             Inr (Some i) \<Rightarrow> Inr (Some (Suc i))
           | r \<Rightarrow> r)"

definition deleteTask :: "int \<Rightarrow> jsnum \<Rightarrow> state \<Rightarrow> (error + bool) \<times> state" where
  "deleteTask now taskId s =
     (let s1 = called (DeleteTaskAPI taskId) s in
      case findIndex (heap s1) taskId (tasks s1) of
        Inl e \<Rightarrow> (Inl e, s1)
      | Inr None \<Rightarrow> (Inr False, s1)
      | Inr (Some i) \<Rightarrow>
          (Inr True,
           markAsModified now
             (s1\<lparr>tasks := take i (tasks s1) @ drop (Suc i) (tasks s1),
                 taskMap := (taskMap s1)(key_of_num taskId := None)\<rparr>)))"

text \<open>
  \<^verbatim>\<open>loadFromLocalStorage\<close>. \<^verbatim>\<open>tasks.length = 0\<close> comes after the parse and before
  \<^verbatim>\<open>parsed.forEach\<close>, which throws when the value is not an array; every throw inside
  the \<^verbatim>\<open>try\<close> ends in \<^verbatim>\<open>return false\<close>.
\<close>

definition loadFromLocalStorage :: "state \<Rightarrow> bool \<times> state" where
  "loadFromLocalStorage s =
     (case item_tasks (localStorage s) of
        None \<Rightarrow> (False, s)
      | Some stored \<Rightarrow>
          if stored = Empty_text then (False, s)
          else (case JSON_parse stored of
                  None \<Rightarrow> (False, s)
                | Some parsed \<Rightarrow>
                    (let s1 = s\<lparr>tasks := []\<rparr> in
                     case parsed of
                       JArr vs \<Rightarrow>
                         (case refreshTaskMap (push_all vs s1) of
                            (None, s2) \<Rightarrow> (True, s2)
                          | (Some e, s2) \<Rightarrow> (False, s2))
                     | _ \<Rightarrow> (False, s1))))"

section \<open>ui.js\<close>

text \<open>
  \<^verbatim>\<open>renderTasks\<close> refreshes \<^verbatim>\<open>taskMap\<close> and builds a card for every task whose
  status is one of the three columns; the card inserts \<^verbatim>\<open>task.title\<close> in a template
  and calls \<^verbatim>\<open>task.priority.toUpperCase()\<close>, which throws unless the priority is a
  string. The columns are taken to be on the page. (This is the later of the two versions
  of \<^verbatim>\<open>ui.js\<close> in the sources, the one with priorities; the handlers below read
  the same in both but for the priority field.)
\<close>

definition in_column :: "jsval \<Rightarrow> bool" where
  "in_column v = (get_prop v ''status'' \<in> set [JStr ''todo'', JStr ''doing'', JStr ''done''])"

definition paints :: "jsval \<Rightarrow> bool" where
  "paints v =
     (if in_column v
      then key_of (get_prop v ''title'') \<noteq> None
           \<and> (case get_prop v ''priority'' of JStr p \<Rightarrow> True | _ \<Rightarrow> False)
      else True)"

definition renderTasks :: "state \<Rightarrow> error option \<times> state" where
  "renderTasks s =
     (case refreshTaskMap s of
        (Some e, s1) \<Rightarrow> (Some e, s1)
      | (None, s1) \<Rightarrow> if list_all paints (contents s1) then (None, s1) else (Some TypeError, s1))"

definition alert :: "shown \<Rightarrow> state \<Rightarrow> state" where
  "alert m s = s\<lparr>screen := (screen s)\<lparr>alerts := alerts (screen s) @ [m]\<rparr>\<rparr>"

definition closeModal :: "state \<Rightarrow> state" where
  "closeModal s = s\<lparr>screen := (screen s)\<lparr>modal_hidden := True\<rparr>\<rparr>"

text \<open>
  The modal as the handlers read it: \<open>form_taskId\<close> is
  \<^verbatim>\<open>Number(modal.dataset.taskId)\<close>, the other fields are the values of the inputs.
\<close>

record form =
  form_taskId :: jsnum
  form_title :: string
  form_description :: string
  form_status :: string
  form_priority :: string

definition form_data :: "form \<Rightarrow> props" where
  "form_data f =
     [(''title'', JStr (trim (form_title f))),
      (''description'', JStr (trim (form_description f))),
      (''status'', JStr (form_status f)),
      (''priority'', JStr (form_priority f))]"

text \<open>
  \<^verbatim>\<open>saveChanges\<close> reads the clock in \<^verbatim>\<open>editTask\<close> and in
  \<^verbatim>\<open>saveToLocalStorage\<close>; \<^verbatim>\<open>addNewTask\<close> reads it twice in \<^verbatim>\<open>addTask\<close> and
  once in \<^verbatim>\<open>saveToLocalStorage\<close>.
\<close>

definition saveChanges :: "int \<Rightarrow> int \<Rightarrow> form \<Rightarrow> state \<Rightarrow> state" where
  "saveChanges now_mod now_save f s =
     (if trim (form_title f) = [] then alert (Shown ''Title is required.'') s
      else case editTask now_mod (form_taskId f) (form_data f) s of
             (Inl e, s1) \<Rightarrow> alert (interpolate ''Error updating task: '' e) s1
           | (Inr updated, s1) \<Rightarrow>
               if updated then
                 (case renderTasks (saveToLocalStorage now_save s1) of
                    (None, s2) \<Rightarrow> closeModal s2
                  | (Some e, s2) \<Rightarrow> alert (interpolate ''Error updating task: '' e) s2)
               else s1)"

definition addNewTask :: "int \<Rightarrow> int \<Rightarrow> int \<Rightarrow> form \<Rightarrow> state \<Rightarrow> state" where
  "addNewTask now_id now_mod now_save f s =
     (if trim (form_title f) = [] then alert (Shown ''Please enter a title.'') s
      else case addTask now_id now_mod (form_data f) s of
             (a, s1) \<Rightarrow>
               (case renderTasks (saveToLocalStorage now_save s1) of
                  (None, s2) \<Rightarrow> closeModal s2
                | (Some e, s2) \<Rightarrow> alert (interpolate ''Error creating task: '' e) s2))"

section \<open>script.js\<close>

definition updateDataStatus :: "string \<Rightarrow> string \<Rightarrow> state \<Rightarrow> state" where
  "updateDataStatus status txt s =
     s\<lparr>screen := (screen s)\<lparr>status_class := status, status_text := txt\<rparr>\<rparr>"

definition showLoading :: "state \<Rightarrow> state" where
  "showLoading s =
     updateDataStatus ''loading'' ''Loading from API...''
       (s\<lparr>screen := (screen s)\<lparr>loading_display := ''flex'', error_hidden := True\<rparr>\<rparr>)"

definition hideLoading :: "state \<Rightarrow> state" where
  "hideLoading s = s\<lparr>screen := (screen s)\<lparr>loading_display := ''none''\<rparr>\<rparr>"

definition hideError :: "state \<Rightarrow> state" where
  "hideError s = s\<lparr>screen := (screen s)\<lparr>error_hidden := True\<rparr>\<rparr>"

definition showError :: "shown \<Rightarrow> state \<Rightarrow> state" where
  "showError message s =
     s\<lparr>screen := (screen s)
          \<lparr>error_text := message, error_hidden := False, loading_display := ''none''\<rparr>\<rparr>"

text \<open>
  The second half of \<^verbatim>\<open>loadTasks\<close>, from \<^verbatim>\<open>showLoading()\<close> on. A throw of
  \<^verbatim>\<open>loadTasksFromAPI\<close> or of the \<^verbatim>\<open>renderTasks\<close> after it lands in the
  \<^verbatim>\<open>catch\<close>.
\<close>

definition syncWithServer :: "bool \<Rightarrow> fetch_reply \<Rightarrow> state \<Rightarrow> state" where
  "syncWithServer hasLocalData reply s =
     (let failed = (\<lambda>e s'.
            if \<not> hasLocalData then
              updateDataStatus ''error'' ''Failed to load data''
                (showError (message_or e ''Failed to load tasks from the server.'') s')
            else updateDataStatus ''local'' ''Using local data (API unavailable)'' (hideLoading s'))
      in case loadTasksFromAPI reply (showLoading s) of
           (Some e, s1) \<Rightarrow> failed e s1
         | (None, s1) \<Rightarrow>
             (case renderTasks s1 of
                (Some e, s2) \<Rightarrow> failed e s2
              | (None, s2) \<Rightarrow> updateDataStatus ''api'' ''Synced with server'' (hideLoading s2)))"

text \<open>
  \<^verbatim>\<open>loadTasks\<close>. The \<^verbatim>\<open>renderTasks\<close> after a local load is outside the
  \<^verbatim>\<open>try\<close>: when it throws, the run ends there with that error.
\<close>

definition loadTasks :: "fetch_reply \<Rightarrow> state \<Rightarrow> error option \<times> state" where
  "loadTasks reply s =
     (case loadFromLocalStorage s of
        (hasLocalData, s1) \<Rightarrow>
          if hasLocalData then
            (case renderTasks s1 of
               (Some e, s2) \<Rightarrow> (Some e, s2)
             | (None, s2) \<Rightarrow>
                 (let s3 = updateDataStatus ''local'' ''Loaded from local storage'' s2 in
                  if hasUnsavedChanges s3
                  then (None, updateDataStatus ''local'' ''Using local data (unsaved changes)'' s3)
                  else (None, syncWithServer hasLocalData reply s3)))
          else (None, syncWithServer hasLocalData reply
                        (updateDataStatus ''loading'' ''No local data, loading from API...'' s1)))"

text \<open>The click handler of the retry button.\<close>

definition retry :: "fetch_reply \<Rightarrow> state \<Rightarrow> error option \<times> state" where
  "retry reply s = loadTasks reply (hideError s)"

text \<open>The callback of \<^verbatim>\<open>initializeAutoSave\<close>, at one tick of the timer.\<close>

definition autoSave :: "int \<Rightarrow> state \<Rightarrow> state" where
  "autoSave now s =
     (if hasUnsavedChanges s
      then updateDataStatus ''local'' ''Auto-saved to local storage'' (saveToLocalStorage now s)
      else s)"

section \<open>Process start\<close>

text \<open>
  \<^verbatim>\<open>tasks = []\<close> and \<^verbatim>\<open>taskMap = {}\<close> when the modules are loaded; the local store
  and the page are what the browser has.
\<close>

definition startup :: "storage \<Rightarrow> page \<Rightarrow> state" where
  "startup st pg =
     \<lparr>heap = (\<lambda>a. JUndefined), next_addr = 0, tasks = [], taskMap = Map.empty,
      localStorage = st, api_calls = [], screen = pg\<rparr>"

definition empty_storage :: storage where
  "empty_storage = \<lparr>item_tasks = None, item_lastSaved = None, item_lastModified = None\<rparr>"

definition blank_page :: page where
  "blank_page =
     \<lparr>status_class = [], status_text = [], loading_display = ''none'', error_text = Shown [],
      error_hidden = True, modal_hidden = True, alerts = []\<rparr>"

section \<open>Notions of the specification\<close>



text \<open>
  The mapping \<^verbatim>\<open>{t.id: t for t in sequence}\<close> of the specification: the last record
  with a key is the one the key maps to.
\<close>

definition derived_index :: "state \<Rightarrow> string \<Rightarrow> addr option" where
  "derived_index s k = map_of (rev (map (\<lambda>a. (task_key (heap s a), a)) (tasks s))) (Some k)"

text \<open>
  A state in which every element of the sequence is an allocated cell holding a record
  with a key, and the index is the derived mapping.
\<close>

definition allocated :: "state \<Rightarrow> bool" where
  "allocated s = list_all (\<lambda>a. a < next_addr s) (tasks s)"

definition keyed :: "state \<Rightarrow> bool" where
  "keyed s = list_all (\<lambda>a. task_key (heap s a) \<noteq> None) (tasks s)"

definition consistent :: "state \<Rightarrow> bool" where
  "consistent s = (allocated s \<and> keyed s \<and> taskMap s = derived_index s)"






section \<open>Example data\<close>

text \<open>
  The record and the stores of the scenarios in the specification: one task in the
  column \<^verbatim>\<open>todo\<close>, saved at 1000 and modified at 1500.
\<close>

definition task_A :: jsval where
  "task_A = JObj [(''id'', JNum (Finite 1)), (''title'', JStr ''A''), (''status'', JStr ''todo''),
                  (''priority'', JStr ''low'')]"

definition unsaved_store :: storage where
  "unsaved_store =
     \<lparr>item_tasks = Some (Json (JArr [task_A])), item_lastSaved = Some ''1000'',
      item_lastModified = Some ''1500''\<rparr>"

definition broken_store :: storage where
  "broken_store =
     \<lparr>item_tasks = Some (Json (JArr [task_A, JNull])), item_lastSaved = None,
      item_lastModified = None\<rparr>"

section \<open>Decimal strings are read back\<close>

lemma small_cases: "d < 10 \<Longrightarrow> d \<in> {0, 1, 2, 3, 4, 5, 6, 7, 8, 9::nat}"
  by auto

lemma dec_digit_digit_char: "d < 10 \<Longrightarrow> dec_digit (digit_char d) = Some d"
  using small_cases [of d] by (auto simp: dec_digit_def digit_char_def)

lemma digit_char_not_ws: "d < 10 \<Longrightarrow> \<not> is_ws (digit_char d)"
  using small_cases [of d] by (auto simp: is_ws_def digit_char_def)

lemma digit_char_not_sign:
  "d < 10 \<Longrightarrow> digit_char d \<noteq> CHR ''-'' \<and> digit_char d \<noteq> CHR ''+''"
  using small_cases [of d] by (auto simp: digit_char_def)

lemma digits_of_dec: "list_all (\<lambda>c. dec_digit c \<noteq> None) (digits_of n)"
proof (induction n rule: digits_of.induct)
  case (1 n)
  show ?case
  proof (cases "n < 10")
    case True
    then show ?thesis by (simp add: digits_of.simps [of n] dec_digit_digit_char)
  next
    case False
    with 1 show ?thesis by (simp add: digits_of.simps [of n] dec_digit_digit_char)
  qed
qed

lemma digits_of_nonempty: "digits_of n \<noteq> []"
  by (simp add: digits_of.simps [of n])

lemma digits_value_snoc:
  "digits_value r (z @ [c]) = digits_value r z * r + the (radix_digit r c)"
  by (simp add: digits_value_def)

lemma digits_value_digits_of: "digits_value 10 (digits_of n) = n"
proof (induction n rule: digits_of.induct)
  case (1 n)
  show ?case
  proof (cases "n < 10")
    case True
    then show ?thesis
      by (simp add: digits_of.simps [of n] digits_value_def radix_digit_def dec_digit_digit_char)
  next
    case False
    with 1 have "digits_value 10 (digits_of (n div 10)) = n div 10" by simp
    with False show ?thesis
      by (simp add: digits_of.simps [of n] digits_value_snoc radix_digit_def dec_digit_digit_char)
  qed
qed

lemma hd_digits_of: "\<exists>d<10. \<exists>rest. digits_of n = digit_char d # rest"
proof (induction n rule: digits_of.induct)
  case (1 n)
  show ?case
  proof (cases "n < 10")
    case True
    then show ?thesis by (auto simp: digits_of.simps [of n])
  next
    case False
    with 1 obtain d rest where "d < 10" "digits_of (n div 10) = digit_char d # rest" by auto
    with False show ?thesis by (auto simp: digits_of.simps [of n])
  qed
qed

lemma strip_prefix_digits: "strip_prefix (digits_of n) = (10, digits_of n)"
proof -
  have "list_all (\<lambda>c. dec_digit c \<noteq> None) (digits_of n)" by (rule digits_of_dec)
  moreover have "dec_digit CHR ''x'' = None" "dec_digit CHR ''X'' = None"
    by (simp_all add: dec_digit_def)
  ultimately show ?thesis
    by (auto simp: strip_prefix_def split: list.splits)
qed

lemma takeWhile_digits_of: "takeWhile (is_digit 10) (digits_of n) = digits_of n"
  using digits_of_dec [of n] by (simp add: is_digit_def radix_digit_def list_all_iff)

lemma parse_digits_of: "parseInt (digits_of n) = Finite (int n)"
proof -
  obtain d rest where d: "d < 10" "digits_of n = digit_char d # rest"
    using hd_digits_of [of n] by auto
  have ws: "dropWhile is_ws (digits_of n) = digits_of n"
    using d digit_char_not_ws by simp
  have sg: "strip_sign (digits_of n) = (False, digits_of n)"
    using d digit_char_not_sign [of d] by (simp add: strip_sign_def)
  show ?thesis
    by (simp add: parseInt_def ws sg strip_prefix_digits takeWhile_digits_of
        digits_of_nonempty digits_value_digits_of)
qed

lemma parseInt_toString: "parseInt (toString n) = Finite n"
proof (cases "n < 0")
  case False
  then show ?thesis by (simp add: toString_def parse_digits_of)
next
  case True
  then show ?thesis
    by (simp add: toString_def parseInt_def is_ws_def strip_sign_def strip_prefix_digits
        takeWhile_digits_of digits_of_nonempty digits_value_digits_of)
qed

lemma toString_nonempty: "toString n \<noteq> []"
  by (simp add: toString_def digits_of_nonempty)

section \<open>Unsaved changes\<close>

lemma hasUnsavedChanges_storage:
  "localStorage s = localStorage s' \<Longrightarrow> hasUnsavedChanges s = hasUnsavedChanges s'"
  by (simp add: hasUnsavedChanges_def getLastSavedTime_def)

text \<open>
  What \<^verbatim>\<open>hasUnsavedChanges\<close> computes: both keys hold a non-empty string, the saved
  time reads as a number other than zero, and the modified time reads as a larger one.
\<close>

lemma hasUnsavedChanges_iff:
  "hasUnsavedChanges s \<longleftrightarrow>
     (\<exists>t m a b. item_lastSaved (localStorage s) = Some t \<and> t \<noteq> []
        \<and> item_lastModified (localStorage s) = Some m \<and> m \<noteq> []
        \<and> parseInt t = Finite a \<and> parseInt m = Finite b \<and> a \<noteq> 0 \<and> a < b)"
proof (cases "item_lastSaved (localStorage s)")
  case None
  then show ?thesis by (simp add: hasUnsavedChanges_def getLastSavedTime_def not_num_def)
next
  case (Some t)
  note t = this
  show ?thesis
  proof (cases "item_lastModified (localStorage s)")
    case None
    then show ?thesis by (simp add: hasUnsavedChanges_def not_str_def)
  next
    case (Some m)
    show ?thesis
    proof (cases "parseInt t")
      case NaN
      with t Some show ?thesis
        by (simp add: hasUnsavedChanges_def getLastSavedTime_def not_num_def not_str_def)
    next
      case (Finite a)
      with t Some show ?thesis
        by (cases "parseInt m")
          (auto simp: hasUnsavedChanges_def getLastSavedTime_def not_num_def not_str_def)
    qed
  qed
qed

text \<open>
  C3. With \<^verbatim>\<open>lastSaved = "0"\<close> and \<^verbatim>\<open>lastModified = "5"\<close> both keys are present and
  the integer value of the second is greater than that of the first, and
  \<^verbatim>\<open>hasUnsavedChanges()\<close> returns false: \<^verbatim>\<open>!lastSaved\<close> takes the number 0 for a
  missing key.
\<close>

theorem hasUnsavedChanges_lastSaved_zero:
  "parseInt ''0'' = Finite 0 \<and> parseInt ''5'' = Finite 5
   \<and> hasUnsavedChanges
        (startup \<lparr>item_tasks = None, item_lastSaved = Some ''0'', item_lastModified = Some ''5''\<rparr>
           blank_page) = False"
  by (simp add: hasUnsavedChanges_def getLastSavedTime_def startup_def not_num_def
      parseInt_def strip_sign_def strip_prefix_def is_ws_def is_digit_def radix_digit_def
      dec_digit_def digits_value_def)

section \<open>Loading a stored value that is not an array\<close>

text \<open>
  C10. When the text under \<^verbatim>\<open>tasks\<close> is valid JSON and its value is not an array,
  \<^verbatim>\<open>loadFromLocalStorage\<close> returns false and the only change to the state is that the
  task sequence is empty.
\<close>

theorem loadFromLocalStorage_not_array:
  assumes "item_tasks (localStorage s) = Some (Json v)" and "\<forall>vs. v \<noteq> JArr vs"
  shows "loadFromLocalStorage s = (False, s\<lparr>tasks := []\<rparr>)"
  using assms by (cases v) (simp_all add: loadFromLocalStorage_def JSON_parse_def)

theorem loadFromLocalStorage_not_array_witness:
  "item_tasks (localStorage
      (push JNull (startup (empty_storage\<lparr>item_tasks := Some (Json (JStr ''x''))\<rparr>) blank_page)))
     = Some (Json (JStr ''x''))
   \<and> (\<forall>vs. JStr ''x'' \<noteq> JArr vs)
   \<and> tasks (push JNull (startup (empty_storage\<lparr>item_tasks := Some (Json (JStr ''x''))\<rparr>) blank_page))
       = [0]
   \<and> fst (loadFromLocalStorage
        (push JNull (startup (empty_storage\<lparr>item_tasks := Some (Json (JStr ''x''))\<rparr>) blank_page)))
       = False
   \<and> tasks (snd (loadFromLocalStorage
        (push JNull (startup (empty_storage\<lparr>item_tasks := Some (Json (JStr ''x''))\<rparr>) blank_page))))
       = []"
  using loadFromLocalStorage_not_array
    [of "push JNull (startup (empty_storage\<lparr>item_tasks := Some (Json (JStr ''x''))\<rparr>) blank_page)"
        "JStr ''x''"]
  by (simp add: push_def startup_def empty_storage_def)

section \<open>Adding and editing\<close>

lemma createTask_key:
  "task_key (createTask now taskData) = Some (key_of_num (Finite now))"
  by (simp add: task_key_def createTask_def nullish_def get_prop_def lookup_def)

lemma addTask_result:
  "addTask now_id now_mod taskData s =
     (next_addr s,
      s\<lparr>heap := (heap s)(next_addr s := createTask now_id taskData),
        next_addr := Suc (next_addr s),
        tasks := tasks s @ [next_addr s],
        taskMap := (taskMap s)(key_of_num (Finite now_id) \<mapsto> next_addr s),
        localStorage := (localStorage s)\<lparr>item_lastModified := Some (toString now_mod)\<rparr>,
        api_calls := api_calls s @ [CreateTask taskData]\<rparr>)"
  by (simp add: addTask_def called_def push_def markAsModified_def Let_def)

text \<open>Both functions call their stub of \<^verbatim>\<open>api.js\<close> whatever else they do.\<close>

lemma addTask_calls: "api_calls (snd (addTask now_id now_mod taskData s)) \<noteq> api_calls s"
  by (simp add: addTask_result)

lemma editTask_calls: "api_calls (snd (editTask now taskId updates s)) \<noteq> api_calls s"
  by (auto simp: editTask_def called_def markAsModified_def Let_def
      split: option.splits jsval.splits)

text \<open>
  C4. The record \<^verbatim>\<open>addTask\<close> returns has the title, description and status of
  \<^verbatim>\<open>taskData\<close> (\<^verbatim>\<open>undefined\<close> where \<^verbatim>\<open>taskData\<close> has none), has no property
  \<^verbatim>\<open>priority\<close>, and \<^verbatim>\<open>taskMap\<close> maps the key of its id to it.
\<close>

theorem addTask_record_found:
  "case addTask now_id now_mod taskData s of
     (a, s') \<Rightarrow>
       get_prop (heap s' a) ''title'' = lookup taskData ''title''
     \<and> get_prop (heap s' a) ''description'' = lookup taskData ''description''
     \<and> get_prop (heap s' a) ''status'' = lookup taskData ''status''
     \<and> (\<exists>fs. heap s' a = JObj fs \<and> map_of fs ''priority'' = None)
     \<and> task_key (heap s' a) = Some (key_of_num (Finite now_id))
     \<and> taskMap s' (key_of_num (Finite now_id)) = Some a
     \<and> a \<in> set (tasks s')"
  by (simp add: addTask_result createTask_key) (simp add: createTask_def get_prop_def lookup_def)




section \<open>The modal handlers\<close>

text \<open>
  C9. When the trimmed title is empty, \<^verbatim>\<open>addNewTask\<close> and \<^verbatim>\<open>saveChanges\<close> only
  raise their alert: no stub of \<^verbatim>\<open>api.js\<close> is called (so neither \<^verbatim>\<open>addTask\<close>
  nor \<^verbatim>\<open>editTask\<close> ran), and the sequence, the records, the index and the local
  store are as before.
\<close>

theorem empty_title_no_call:
  assumes "trim (form_title f) = []"
  shows "addNewTask n1 n2 n3 f s = alert (Shown ''Please enter a title.'') s
       \<and> saveChanges n4 n5 f s = alert (Shown ''Title is required.'') s
       \<and> api_calls (addNewTask n1 n2 n3 f s) = api_calls s
       \<and> api_calls (saveChanges n4 n5 f s) = api_calls s
       \<and> tasks (addNewTask n1 n2 n3 f s) = tasks s
       \<and> tasks (saveChanges n4 n5 f s) = tasks s
       \<and> heap (addNewTask n1 n2 n3 f s) = heap s
       \<and> heap (saveChanges n4 n5 f s) = heap s
       \<and> taskMap (addNewTask n1 n2 n3 f s) = taskMap s
       \<and> taskMap (saveChanges n4 n5 f s) = taskMap s
       \<and> localStorage (addNewTask n1 n2 n3 f s) = localStorage s
       \<and> localStorage (saveChanges n4 n5 f s) = localStorage s"
  using assms by (simp add: addNewTask_def saveChanges_def alert_def)

theorem empty_title_no_call_witness:
  "trim (form_title \<lparr>form_taskId = Finite 7, form_title = ''   '', form_description = ''d'',
       form_status = ''todo'', form_priority = ''low''\<rparr>) = []
   \<and> api_calls (addNewTask 1 2 3 \<lparr>form_taskId = Finite 7, form_title = ''   '',
       form_description = ''d'', form_status = ''todo'', form_priority = ''low''\<rparr>
       (startup empty_storage blank_page)) = []
   \<and> api_calls (saveChanges 4 5 \<lparr>form_taskId = Finite 7, form_title = ''   '',
       form_description = ''d'', form_status = ''todo'', form_priority = ''low''\<rparr>
       (startup empty_storage blank_page)) = []"
proof -
  have h: "trim (form_title \<lparr>form_taskId = Finite 7, form_title = ''   '',
       form_description = ''d'', form_status = ''todo'', form_priority = ''low''\<rparr>) = []"
    by (simp add: trim_def is_ws_def)
  have "api_calls (startup empty_storage blank_page) = []"
    by (simp add: startup_def)
  with h empty_title_no_call [OF h, of 1 2 3 "startup empty_storage blank_page" 4 5]
  show ?thesis by (simp add: alert_def startup_def)
qed

section \<open>The sequence and its cells\<close>

lemma contents_update [simp]:
  "contents (s\<lparr>taskMap := m\<rparr>) = contents s"
  "contents (s\<lparr>localStorage := st\<rparr>) = contents s"
  "contents (s\<lparr>api_calls := cs\<rparr>) = contents s"
  "contents (s\<lparr>screen := pg\<rparr>) = contents s"
  by (simp_all add: contents_def)

lemma contents_push: "allocated s \<Longrightarrow> contents (push v s) = contents s @ [v]"
  by (auto simp: contents_def push_def allocated_def list_all_iff)

lemma allocated_push: "allocated s \<Longrightarrow> allocated (push v s)"
  by (auto simp: push_def allocated_def list_all_iff)

lemma push_all_contents:
  "allocated s \<Longrightarrow> contents (push_all vs s) = contents s @ vs \<and> allocated (push_all vs s)"
proof (induction vs arbitrary: s)
  case Nil
  then show ?case by simp
next
  case (Cons v vs)
  from Cons.prems have "allocated (push v s)" by (rule allocated_push)
  from Cons.IH [OF this] Cons.prems show ?case by (simp add: contents_push)
qed

lemma push_all_fields:
  "localStorage (push_all vs s) = localStorage s \<and> api_calls (push_all vs s) = api_calls s
   \<and> screen (push_all vs s) = screen s \<and> taskMap (push_all vs s) = taskMap s"
  by (induction vs arbitrary: s) (simp_all add: push_def)

lemma refreshTaskMap_state:
  "snd (refreshTaskMap s) = s\<lparr>taskMap := snd (index_tasks (heap s) (tasks s) Map.empty)\<rparr>"
  by (simp add: refreshTaskMap_def split: prod.splits)






lemma renderTasks_state: "snd (renderTasks s) = snd (refreshTaskMap s)"
  by (simp add: renderTasks_def split: prod.splits option.splits)

lemma task_A_key: "task_key task_A = Some ''1''"
  by (simp add: task_key_def task_A_def nullish_def get_prop_def lookup_def key_of_num_def
      toString_def digits_of.simps digit_char_def)

lemma task_key_null: "task_key JNull = None"
  by (simp add: task_key_def nullish_def)


section \<open>Loading from the local store\<close>

lemma loadFromLocalStorage_absent:
  assumes "item_tasks (localStorage s) = None \<or> item_tasks (localStorage s) = Some Empty_text
         \<or> item_tasks (localStorage s) = Some Malformed"
  shows "loadFromLocalStorage s = (False, s)"
  using assms by (auto simp: loadFromLocalStorage_def JSON_parse_def)

lemma loadFromLocalStorage_True:
  assumes "fst (loadFromLocalStorage s) = True"
  shows "\<exists>vs. item_tasks (localStorage s) = Some (Json (JArr vs))
            \<and> contents (snd (loadFromLocalStorage s)) = vs
            \<and> api_calls (snd (loadFromLocalStorage s)) = api_calls s
            \<and> localStorage (snd (loadFromLocalStorage s)) = localStorage s"
proof (cases "item_tasks (localStorage s)")
  case None
  with assms show ?thesis by (simp add: loadFromLocalStorage_def)
next
  case (Some stored)
  show ?thesis
  proof (cases stored)
    case Empty_text
    with Some assms show ?thesis by (simp add: loadFromLocalStorage_def)
  next
    case Malformed
    with Some assms show ?thesis by (simp add: loadFromLocalStorage_def JSON_parse_def)
  next
    case (Json v)
    show ?thesis
    proof (cases "\<exists>vs. v = JArr vs")
      case False
      then have "loadFromLocalStorage s = (False, s\<lparr>tasks := []\<rparr>)"
        using Some Json by (cases v) (simp_all add: loadFromLocalStorage_def JSON_parse_def)
      with assms show ?thesis by simp
    next
      case True
      then obtain vs where v: "v = JArr vs" by auto
      let ?s2 = "push_all vs (s\<lparr>tasks := []\<rparr>)"
      have al: "allocated (s\<lparr>tasks := []\<rparr>)" by (simp add: allocated_def)
      have c: "contents ?s2 = vs"
        using push_all_contents [OF al, of vs] by (simp add: contents_def)
      have "snd (loadFromLocalStorage s) = snd (refreshTaskMap ?s2)"
        using Some Json v
        by (simp add: loadFromLocalStorage_def JSON_parse_def split: prod.splits option.splits)
      then show ?thesis
        using Some Json v c push_all_fields [of vs "s\<lparr>tasks := []\<rparr>"]
        by (simp add: refreshTaskMap_state)
    qed
  qed
qed




section \<open>The loading strategy\<close>

lemma parse_1000: "parseInt ''1000'' = Finite 1000" "parseInt ''1500'' = Finite 1500"
  by (simp_all add: parseInt_def strip_sign_def strip_prefix_def is_ws_def is_digit_def
      radix_digit_def dec_digit_def digits_value_def)

text \<open>\<^verbatim>\<open>loadTasksFromAPI\<close> records its call of \<^verbatim>\<open>fetchTasks\<close> whatever the reply.\<close>

lemma loadTasksFromAPI_calls:
  "api_calls (snd (loadTasksFromAPI reply s)) = api_calls s @ [FetchTasks]"
  by (cases "fetchTasks reply")
    (simp_all add: loadTasksFromAPI_def called_def Let_def refreshTaskMap_state push_all_fields)

text \<open>
  C1. When \<^verbatim>\<open>loadFromLocalStorage\<close> returns true and there are unsaved changes, a
  run of \<^verbatim>\<open>loadTasks\<close> makes no call to \<^verbatim>\<open>fetchTasks\<close>, and the sequence it
  leaves holds the elements of the stored array, in order. (A retry is
  \<^verbatim>\<open>loadTasks\<close> on the state with the error box hidden.)
\<close>

theorem loadTasks_unsaved_local:
  assumes "fst (loadFromLocalStorage s) = True" and "hasUnsavedChanges s"
  shows "api_calls (snd (loadTasks reply s)) = api_calls s
       \<and> (\<exists>vs. item_tasks (localStorage s) = Some (Json (JArr vs))
              \<and> contents (snd (loadTasks reply s)) = vs)"
proof -
  obtain s1 where l: "loadFromLocalStorage s = (True, s1)"
    using assms(1) by (cases "loadFromLocalStorage s") simp
  from loadFromLocalStorage_True [OF assms(1)] l obtain vs
    where vs: "item_tasks (localStorage s) = Some (Json (JArr vs))" "contents s1 = vs"
      "api_calls s1 = api_calls s" "localStorage s1 = localStorage s"
    by auto
  let ?s2 = "snd (refreshTaskMap s1)"
  have s2: "contents ?s2 = vs" "api_calls ?s2 = api_calls s" "localStorage ?s2 = localStorage s"
    using vs by (simp_all add: refreshTaskMap_state)
  have u: "hasUnsavedChanges (updateDataStatus a b ?s2)" for a b
    using assms(2) s2(3) hasUnsavedChanges_storage [of "updateDataStatus a b ?s2" s]
    by (simp add: updateDataStatus_def)
  have r: "snd (renderTasks s1) = ?s2" by (rule renderTasks_state)
  have "snd (loadTasks reply s) = ?s2
      \<or> snd (loadTasks reply s)
          = updateDataStatus ''local'' ''Using local data (unsaved changes)''
              (updateDataStatus ''local'' ''Loaded from local storage'' ?s2)"
    using l r u by (cases "renderTasks s1") (auto simp: loadTasks_def Let_def split: option.splits)
  then show ?thesis
    using s2 vs(1) by (auto simp: updateDataStatus_def contents_def)
qed

theorem loadTasks_unsaved_local_witness:
  "fst (loadFromLocalStorage (startup unsaved_store blank_page)) = True
   \<and> hasUnsavedChanges (startup unsaved_store blank_page)
   \<and> api_calls (snd (loadTasks (Body (JArr [])) (startup unsaved_store blank_page))) = []
   \<and> contents (snd (loadTasks (Body (JArr [])) (startup unsaved_store blank_page))) = [task_A]"
proof -
  have h1: "fst (loadFromLocalStorage (startup unsaved_store blank_page)) = True"
    by (simp add: loadFromLocalStorage_def startup_def unsaved_store_def JSON_parse_def
        refreshTaskMap_def push_def task_A_key)
  have h2: "hasUnsavedChanges (startup unsaved_store blank_page)"
    by (simp add: hasUnsavedChanges_def getLastSavedTime_def startup_def unsaved_store_def
        not_num_def not_str_def parse_1000)
  have "api_calls (startup unsaved_store blank_page) = []"
    "item_tasks (localStorage (startup unsaved_store blank_page)) = Some (Json (JArr [task_A]))"
    by (simp_all add: startup_def unsaved_store_def)
  with h1 h2 loadTasks_unsaved_local [OF h1 h2, of "Body (JArr [])"]
  show ?thesis by simp
qed

text \<open>
  A run that finds no local data and whose fetch fails: the error box shows the message
  of the error \<^verbatim>\<open>fetchTasks\<close> threw, and the sequence is as
  \<^verbatim>\<open>loadFromLocalStorage\<close> left it. That is the sequence from before the run when
  the key is missing or its text is empty or does not parse.
\<close>

lemma loadTasks_no_local_fetch_fails:
  assumes "fst (loadFromLocalStorage s) = False" and "fetchTasks reply = Inl e"
  shows "loadTasks reply s =
     (None,
      updateDataStatus ''error'' ''Failed to load data''
        (showError (message_or e ''Failed to load tasks from the server.'')
          (called FetchTasks
            (showLoading
              (updateDataStatus ''loading'' ''No local data, loading from API...''
                (snd (loadFromLocalStorage s)))))))"
  using assms
  by (cases "loadFromLocalStorage s")
    (simp add: loadTasks_def syncWithServer_def loadTasksFromAPI_def Let_def)

lemma fetchTasks_message:
  "fetchTasks reply = Inl e \<Longrightarrow> \<exists>m. e = Error (''Failed to fetch tasks: '' @ m)"
  by (cases reply) (auto simp: fetchTasks_def)

lemma loadTasks_absent_fetch_fails:
  assumes "item_tasks (localStorage s) = None \<or> item_tasks (localStorage s) = Some Empty_text
         \<or> item_tasks (localStorage s) = Some Malformed"
    and "fetchTasks reply = Inl (Error m)"
  shows "fst (loadTasks reply s) = None
       \<and> error_hidden (screen (snd (loadTasks reply s))) = False
       \<and> error_text (screen (snd (loadTasks reply s))) = Shown m
       \<and> tasks (snd (loadTasks reply s)) = tasks s
       \<and> heap (snd (loadTasks reply s)) = heap s
       \<and> taskMap (snd (loadTasks reply s)) = taskMap s"
proof -
  have l: "loadFromLocalStorage s = (False, s)"
    using assms(1) by (rule loadFromLocalStorage_absent)
  then have f: "fst (loadFromLocalStorage s) = False" by simp
  from fetchTasks_message [OF assms(2)] have "m \<noteq> []" by auto
  then show ?thesis
    by (simp add: loadTasks_no_local_fetch_fails [OF f assms(2)] l updateDataStatus_def
        showError_def called_def showLoading_def)
qed

lemma load_broken_store:
  "fst (loadFromLocalStorage (startup broken_store blank_page)) = False"
  "contents (snd (loadFromLocalStorage (startup broken_store blank_page))) = [task_A, JNull]"
  by (simp_all add: loadFromLocalStorage_def startup_def broken_store_def JSON_parse_def
      refreshTaskMap_def push_def task_A_key task_key_null contents_def)

text \<open>
  C7. At process start with \<^verbatim>\<open>[{"id":1,...},null]\<close> under \<^verbatim>\<open>tasks\<close> and the
  network down: \<^verbatim>\<open>loadFromLocalStorage\<close> returns false, the fetch fails, the error
  box shows the message of that failure, and the sequence, empty before the run, holds
  the two stored elements.
\<close>

theorem loadTasks_broken_store:
  "tasks (startup broken_store blank_page) = []
   \<and> fst (loadFromLocalStorage (startup broken_store blank_page)) = False
   \<and> fetchTasks (Rejected ''network down'') = Inl (Error ''Failed to fetch tasks: network down'')
   \<and> fst (loadTasks (Rejected ''network down'') (startup broken_store blank_page)) = None
   \<and> error_hidden (screen (snd (loadTasks (Rejected ''network down'')
        (startup broken_store blank_page)))) = False
   \<and> error_text (screen (snd (loadTasks (Rejected ''network down'')
        (startup broken_store blank_page)))) = Shown ''Failed to fetch tasks: network down''
   \<and> contents (snd (loadTasks (Rejected ''network down'') (startup broken_store blank_page)))
       = [task_A, JNull]"
proof -
  have f: "fetchTasks (Rejected ''network down'')
         = Inl (Error ''Failed to fetch tasks: network down'')"
    by (simp add: fetchTasks_def)
  have t: "tasks (startup broken_store blank_page) = []" by (simp add: startup_def)
  show ?thesis
    using t f load_broken_store
    by (simp add: loadTasks_no_local_fetch_fails [OF load_broken_store(1) f]
        updateDataStatus_def showError_def called_def showLoading_def)
qed

section \<open>Unsaved changes after a mutation and after a save\<close>

lemma toString_1000: "toString 1000 = ''1000''" "toString 1500 = ''1500''"
  by (simp_all add: toString_def digits_of.simps digit_char_def)

text \<open>Every mutation of \<^verbatim>\<open>tasks.js\<close> that succeeds leaves the store as \<^verbatim>\<open>markAsModified\<close> does.\<close>

lemma addTask_marks:
  "localStorage (snd (addTask now_id now taskData s)) = localStorage (markAsModified now s)"
  by (simp add: addTask_result markAsModified_def)

lemma editTask_marks:
  "fst (editTask now taskId updates s) = Inr True \<Longrightarrow>
   localStorage (snd (editTask now taskId updates s)) = localStorage (markAsModified now s)"
  by (auto simp: editTask_def called_def markAsModified_def Let_def
      split: option.splits jsval.splits if_splits)

lemma deleteTask_marks:
  "fst (deleteTask now taskId s) = Inr True \<Longrightarrow>
   localStorage (snd (deleteTask now taskId s)) = localStorage (markAsModified now s)"
  by (auto simp: deleteTask_def called_def markAsModified_def Let_def
      split: option.splits sum.splits)

lemma never_saved: "item_lastSaved (localStorage s) = None \<Longrightarrow> \<not> hasUnsavedChanges s"
  by (simp add: hasUnsavedChanges_iff)

lemma never_saved_modified:
  "item_lastSaved (localStorage s) = None \<Longrightarrow> \<not> hasUnsavedChanges (markAsModified now s)"
  by (simp add: hasUnsavedChanges_iff markAsModified_def)

lemma modified_after_save:
  assumes "item_lastSaved (localStorage s) = Some (toString t)" and "t \<noteq> 0" and "t < now"
  shows "hasUnsavedChanges (markAsModified now s)"
  using assms
  by (simp add: hasUnsavedChanges_iff markAsModified_def toString_nonempty parseInt_toString)

lemma modified_not_after_save:
  assumes "item_lastSaved (localStorage s) = Some (toString t)" and "now \<le> t"
  shows "\<not> hasUnsavedChanges (markAsModified now s)"
  using assms
  by (simp add: hasUnsavedChanges_iff markAsModified_def toString_nonempty parseInt_toString)

lemma saved_after_modified:
  assumes "item_lastModified (localStorage s) = None
         \<or> (\<exists>m. item_lastModified (localStorage s) = Some (toString m) \<and> m \<le> now)"
  shows "\<not> hasUnsavedChanges (saveToLocalStorage now s)"
  using assms
  by (auto simp: hasUnsavedChanges_iff saveToLocalStorage_def parseInt_toString)

text \<open>
  C8, as the code has it. \<^verbatim>\<open>hasUnsavedChanges()\<close> is false when both keys are absent.
  Right after a mutation at time \<open>now\<close> that no save follows it is false when nothing
  was ever saved, true when the last save was at a time \<open>t < now\<close> other than 0, and
  false when the last save was not before \<open>now\<close>. Right after
  \<^verbatim>\<open>saveToLocalStorage\<close> at time \<open>now\<close> it is false, provided the stored
  \<^verbatim>\<open>lastModified\<close> is absent or not later than \<open>now\<close>.
\<close>

theorem hasUnsavedChanges_after:
  "(item_lastSaved (localStorage s) = None \<and> item_lastModified (localStorage s) = None
      \<longrightarrow> \<not> hasUnsavedChanges s)
   \<and> (item_lastSaved (localStorage s) = None \<longrightarrow> \<not> hasUnsavedChanges (markAsModified now s))
   \<and> (item_lastSaved (localStorage s) = Some (toString t) \<and> t \<noteq> 0 \<and> t < now
      \<longrightarrow> hasUnsavedChanges (markAsModified now s))
   \<and> (item_lastSaved (localStorage s) = Some (toString t) \<and> now \<le> t
      \<longrightarrow> \<not> hasUnsavedChanges (markAsModified now s))
   \<and> (item_lastModified (localStorage s) = None
       \<or> (\<exists>m. item_lastModified (localStorage s) = Some (toString m) \<and> m \<le> now)
      \<longrightarrow> \<not> hasUnsavedChanges (saveToLocalStorage now s))"
  using modified_after_save [of s t now] never_saved [of s] never_saved_modified [of s now]
    modified_not_after_save [of s t now] saved_after_modified [of s now]
  by blast

theorem hasUnsavedChanges_after_witness:
  "item_lastSaved (localStorage (startup empty_storage blank_page)) = None
   \<and> item_lastModified (localStorage (startup empty_storage blank_page)) = None
   \<and> \<not> hasUnsavedChanges (startup empty_storage blank_page)
   \<and> \<not> hasUnsavedChanges (markAsModified 1500 (startup empty_storage blank_page))
   \<and> item_lastSaved (localStorage (startup unsaved_store blank_page)) = Some (toString 1000)
   \<and> hasUnsavedChanges (markAsModified 2000 (startup unsaved_store blank_page))
   \<and> \<not> hasUnsavedChanges (markAsModified 900 (startup unsaved_store blank_page))
   \<and> item_lastModified (localStorage (startup unsaved_store blank_page)) = Some (toString 1500)
   \<and> \<not> hasUnsavedChanges (saveToLocalStorage 1600 (startup unsaved_store blank_page))"
proof -
  have e: "item_lastSaved (localStorage (startup empty_storage blank_page)) = None"
    "item_lastModified (localStorage (startup empty_storage blank_page)) = None"
    by (simp_all add: startup_def empty_storage_def)
  have u: "item_lastSaved (localStorage (startup unsaved_store blank_page)) = Some (toString 1000)"
    "item_lastModified (localStorage (startup unsaved_store blank_page)) = Some (toString 1500)"
    by (simp_all add: startup_def unsaved_store_def toString_1000)
  have "(1000::int) \<noteq> 0" "(1000::int) < 2000" "(900::int) \<le> 1000" "(1500::int) \<le> 1600"
    by simp_all
  with e u
    hasUnsavedChanges_after [of "startup empty_storage blank_page" 1500 0]
    hasUnsavedChanges_after [of "startup unsaved_store blank_page" 2000 1000]
    hasUnsavedChanges_after [of "startup unsaved_store blank_page" 900 1000]
    hasUnsavedChanges_after [of "startup unsaved_store blank_page" 1600 1000]
  show ?thesis by blast
qed

text \<open>
  The first mutation of a process whose store was never saved: \<^verbatim>\<open>addTask\<close> writes
  \<^verbatim>\<open>lastModified\<close>, no save follows, and \<^verbatim>\<open>hasUnsavedChanges()\<close> is false. And a
  save whose clock reading, 1000, is behind the stored \<^verbatim>\<open>lastModified\<close>, 1500 (the
  clock was set back in between): \<^verbatim>\<open>hasUnsavedChanges()\<close> is true right after it.
\<close>

theorem first_mutation_not_unsaved:
  "\<not> hasUnsavedChanges
       (snd (addTask 1000 1000 [(''title'', JStr ''A'')] (startup empty_storage blank_page)))
   \<and> hasUnsavedChanges (saveToLocalStorage 1000 (startup unsaved_store blank_page))"
  by (simp add: hasUnsavedChanges_iff addTask_result startup_def empty_storage_def
      saveToLocalStorage_def unsaved_store_def parseInt_toString parse_1000 toString_nonempty)

section \<open>The index and the sequence\<close>



















text \<open>
  Under a numeric key the index holds an object: the branches of \<open>editTask\<close> for an
  array or a primitive are not reached from a consistent state.
\<close>

lemma toString_hd: "\<exists>c rest. toString i = c # rest \<and> c \<noteq> CHR ''u''"
proof (cases "i < 0")
  case True
  then show ?thesis by (simp add: toString_def)
next
  case False
  obtain d rest where d: "d < 10" "digits_of (nat i) = digit_char d # rest"
    using hd_digits_of [of "nat i"] by auto
  have "digit_char d \<noteq> CHR ''u''"
    using small_cases [OF d(1)] by (auto simp: digit_char_def)
  with False d show ?thesis by (simp add: toString_def)
qed

lemma key_of_num_not_undefined: "key_of_num n \<noteq> ''undefined''"
proof (cases n)
  case NaN
  then show ?thesis by (simp add: key_of_num_def)
next
  case (Finite i)
  obtain c rest where "toString i = c # rest" "c \<noteq> CHR ''u''"
    using toString_hd [of i] by auto
  with Finite show ?thesis by (simp add: key_of_num_def)
qed

lemma derived_index_Some:
  "derived_index s k = Some a \<Longrightarrow> a \<in> set (tasks s) \<and> task_key (heap s a) = Some k"
  by (auto simp: derived_index_def dest!: map_of_SomeD)

lemma numeric_key_finds_object:
  assumes "consistent s" and "taskMap s (key_of_num n) = Some a"
  shows "\<exists>fs. heap s a = JObj fs"
proof -
  from assms have "task_key (heap s a) = Some (key_of_num n)"
    using derived_index_Some [of s "key_of_num n" a] by (simp add: consistent_def)
  then show ?thesis
    using key_of_num_not_undefined [of n]
    by (cases "heap s a") (auto simp: task_key_def get_prop_def nullish_def split: if_splits)
qed









end
